theory Spec2Isabelle
  imports Main "HOL-Library.Word" "HOL-Library.Signed_Division"
begin

section \<open>The OTLP metric gRPC client (otlpmetricgrpc/client.go)\<close>

subsection \<open>Status codes, statuses and errors\<close>

text \<open>
  \<^verbatim>\<open>codes.Code\<close> is a \<^verbatim>\<open>uint32\<close>. The named codes used by the client
  are given with the numbers the gRPC protocol assigns them; every other number is a
  code as well (a status read off the wire can hold any of them).
\<close>

type_synonym Code = "32 word"

definition OK :: Code where "OK = 0"
definition Canceled :: Code where "Canceled = 1"
definition Unknown :: Code where "Unknown = 2"
definition InvalidArgument :: Code where "InvalidArgument = 3"
definition DeadlineExceeded :: Code where "DeadlineExceeded = 4"
definition NotFound :: Code where "NotFound = 5"
definition AlreadyExists :: Code where "AlreadyExists = 6"
definition PermissionDenied :: Code where "PermissionDenied = 7"
definition ResourceExhausted :: Code where "ResourceExhausted = 8"
definition FailedPrecondition :: Code where "FailedPrecondition = 9"
definition Aborted :: Code where "Aborted = 10"
definition OutOfRange :: Code where "OutOfRange = 11"
definition Unimplemented :: Code where "Unimplemented = 12"
definition Internal :: Code where "Internal = 13"
definition Unavailable :: Code where "Unavailable = 14"
definition DataLoss :: Code where "DataLoss = 15"
definition Unauthenticated :: Code where "Unauthenticated = 16"

text \<open>
  \<^verbatim>\<open>time.Duration\<close> counts nanoseconds in an \<^verbatim>\<open>int64\<close>. The client itself
  only compares durations with zero and hands them on; they are integers here, and the
  one computation that can leave the \<^verbatim>\<open>int64\<close> range, the conversion of a
  protobuf duration below, has its wrap-around written out.
\<close>

type_synonym Duration = int

definition MinInt64 :: int where "MinInt64 = - 9223372036854775808"
definition MaxInt64 :: int where "MaxInt64 = 9223372036854775807"

text \<open>Is an integer a value of \<^verbatim>\<open>int64\<close>?\<close>

definition fits_int64 :: "int \<Rightarrow> bool" where
  "fits_int64 x = (MinInt64 \<le> x \<and> x \<le> MaxInt64)"

text \<open>The result of \<^verbatim>\<open>int64\<close> arithmetic whose exact result is \<open>x\<close>: the
  two's complement value of the low 64 bits.\<close>

definition wrap_int64 :: "int \<Rightarrow> int" where
  "wrap_int64 x = (x + 9223372036854775808) mod 18446744073709551616 - 9223372036854775808"

text \<open>
  The protobuf message \<^verbatim>\<open>durationpb.Duration\<close>: seconds in an \<^verbatim>\<open>int64\<close>,
  nanoseconds in an \<^verbatim>\<open>int32\<close>, both signed, as they come off the wire. Its
  getters accept the nil message and give 0.
\<close>

record durationpb =
  Seconds :: "64 word"
  Nanos :: "32 word"

fun GetSeconds :: "durationpb option \<Rightarrow> 64 word" where
  "GetSeconds None = 0"
| "GetSeconds (Some x) = Seconds x"

fun GetNanos :: "durationpb option \<Rightarrow> 32 word" where
  "GetNanos None = 0"
| "GetNanos (Some x) = Nanos x"

text \<open>
  \<^verbatim>\<open>(*durationpb.Duration).AsDuration\<close>, which gives the closest
  \<^verbatim>\<open>time.Duration\<close> when the message is out of range:
  \<^verbatim>\<open>
  secs := x.GetSeconds()
  nanos := x.GetNanos()
  d := time.Duration(secs) * time.Second
  overflow := d/time.Second != time.Duration(secs)
  d += time.Duration(nanos) * time.Nanosecond
  overflow = overflow || (secs < 0 && nanos < 0 && d > 0)
  overflow = overflow || (secs > 0 && nanos > 0 && d < 0)
  if overflow {
      switch {
      case secs < 0: return time.Duration(math.MinInt64)
      case secs > 0: return time.Duration(math.MaxInt64)
      }
  }
  return d
  \<close>
  The multiplication and the addition wrap; Go's division truncates towards zero, which
  is \<open>sdiv\<close>.
\<close>

definition AsDuration :: "durationpb option \<Rightarrow> Duration" where
  "AsDuration x =
     (let secs = sint (GetSeconds x);
          nanos = sint (GetNanos x);
          d0 = wrap_int64 (secs * 1000000000);
          overflow0 = (d0 sdiv 1000000000 \<noteq> secs);
          d = wrap_int64 (d0 + nanos);
          overflow1 = (overflow0 \<or> (secs < 0 \<and> nanos < 0 \<and> d > 0));
          overflow = (overflow1 \<or> (secs > 0 \<and> nanos > 0 \<and> d < 0))
      in if overflow \<and> secs < 0 then MinInt64
         else if overflow \<and> secs > 0 then MaxInt64
         else d)"

text \<open>
  One element of \<^verbatim>\<open>Status.Details()\<close>. The client's type switch tells
  \<^verbatim>\<open>*errdetails.RetryInfo\<close> from everything else (another message kind, or the
  error left in the slice by a detail that failed to decode). The field
  \<^verbatim>\<open>RetryDelay\<close> of a retry-info message is a pointer to a protobuf duration:
  \<open>None\<close> is the nil pointer.
\<close>

datatype detail = RetryInfo "durationpb option" | OtherDetail string

record Status =
  code :: Code
  message :: string
  details :: "detail list"

text \<open>
  A non-nil Go \<^verbatim>\<open>error\<close>: either one that carries a gRPC status (it has a
  \<^verbatim>\<open>GRPCStatus()\<close> method) or any other error, known by its text. A nil
  \<^verbatim>\<open>error\<close> is \<open>None\<close> of type \<open>error option\<close>.
\<close>

datatype error = GRPCStatusError Status | PlainError string

definition context_Canceled :: error where
  "context_Canceled = PlainError ''context canceled''"

definition context_DeadlineExceeded :: error where
  "context_DeadlineExceeded = PlainError ''context deadline exceeded''"

text \<open>
  \<^verbatim>\<open>status.Convert\<close>: nil gives the nil status, an error with a status gives that
  status, any other error a status of code Unknown with the error's text. The methods
  of \<^verbatim>\<open>*Status\<close> accept the nil status: its code is OK and it has no details.
\<close>

fun status_Convert :: "error option \<Rightarrow> Status option" where
  "status_Convert None = None"
| "status_Convert (Some (GRPCStatusError s)) = Some s"
| "status_Convert (Some (PlainError msg)) =
     Some \<lparr>code = Unknown, message = msg, details = []\<rparr>"

fun Status_Code :: "Status option \<Rightarrow> Code" where
  "Status_Code None = OK"
| "Status_Code (Some s) = code s"

fun Status_Details :: "Status option \<Rightarrow> detail list" where
  "Status_Details None = []"
| "Status_Details (Some s) = details s"

text \<open>\<^verbatim>\<open>status.Code(err)\<close>: OK for nil, otherwise the code of the converted error.\<close>

definition status_Code :: "error option \<Rightarrow> Code" where
  "status_Code err = (if err = None then OK else Status_Code (status_Convert err))"

subsection \<open>The error classifier\<close>

text \<open>The loop of \<^verbatim>\<open>throttleDelay\<close> over the details, returning at the first
  retry-info detail.\<close>

fun throttleDelay_loop :: "detail list \<Rightarrow> Duration" where
  "throttleDelay_loop [] = 0"
| "throttleDelay_loop (RetryInfo t # ds) = AsDuration t"
| "throttleDelay_loop (OtherDetail x # ds) = throttleDelay_loop ds"

definition throttleDelay :: "Status option \<Rightarrow> Duration" where
  "throttleDelay s = throttleDelay_loop (Status_Details s)"

text \<open>\<^verbatim>\<open>retryable\<close>: the switch on the code of the converted error.\<close>

definition retryable :: "error option \<Rightarrow> bool \<times> Duration" where
  "retryable err =
     (let s = status_Convert err; c = Status_Code s in
      if c = Canceled \<or> c = DeadlineExceeded \<or> c = ResourceExhausted \<or> c = Aborted \<or>
         c = OutOfRange \<or> c = Unavailable \<or> c = DataLoss
      then (True, throttleDelay s)
      else (False, 0))"

text \<open>Is a detail a retry-info detail?\<close>

fun isRetryInfo :: "detail \<Rightarrow> bool" where
  "isRetryInfo (RetryInfo t) = True"
| "isRetryInfo (OtherDetail x) = False"


subsection \<open>Contexts\<close>

text \<open>
  Times are instants on one clock, in nanoseconds. \<^verbatim>\<open>time.Time\<close> has a far
  wider range than \<^verbatim>\<open>time.Duration\<close>, so adding a duration to the current time
  does not wrap.
\<close>

type_synonym Time = int

text \<open>
  Outgoing gRPC metadata, \<^verbatim>\<open>metadata.MD\<close> (a \<^verbatim>\<open>map[string][]string\<close>), as an
  association list; the nil map is \<open>None\<close>.
\<close>

type_synonym MD = "(string \<times> string list) list"

text \<open>\<^verbatim>\<open>MD.Len\<close>: the number of keys; 0 for the nil map.\<close>

fun MD_Len :: "MD option \<Rightarrow> nat" where
  "MD_Len None = 0"
| "MD_Len (Some md) = length (remdups (map fst md))"

definition to_lower :: "char \<Rightarrow> char" where
  "to_lower ch =
     (let n = (of_char ch :: nat) in if 65 \<le> n \<and> n \<le> 90 then char_of (n + 32) else ch)"

text \<open>\<^verbatim>\<open>md[key] = append(md[key], val)\<close>: the value joins the values of its key; a
  key not yet there is added.\<close>

fun MD_append :: "MD \<Rightarrow> string \<Rightarrow> string \<Rightarrow> MD" where
  "MD_append [] key val = [(key, [val])]"
| "MD_append ((k, vs) # md) key val =
     (if k = key then (k, vs @ [val]) # md else (k, vs) # MD_append md key val)"

text \<open>
  \<^verbatim>\<open>metadata.New\<close>: it ranges over the headers, lower-cases each key and appends
  the value to that key, so headers whose keys differ only in case end up under one
  key with several values. The headers are a Go map; the list gives them in the order
  the range visits them. \<open>to_lower\<close> is \<^verbatim>\<open>strings.ToLower\<close> on the ASCII
  letters, the only upper-case letters a gRPC metadata key can be written with.
\<close>

definition metadata_New :: "(string \<times> string) list \<Rightarrow> MD" where
  "metadata_New hs = foldl (\<lambda>md (k, v). MD_append md (map to_lower k) v) [] hs"

text \<open>
  What the client reads from a \<^verbatim>\<open>context.Context\<close> during one call:
  the value of \<^verbatim>\<open>Err()\<close> (nil while the context is neither cancelled nor expired),
  the deadline if there is one, and the outgoing metadata attached to it.
  \<^verbatim>\<open>Done()\<close> is closed exactly when \<^verbatim>\<open>Err()\<close> is not nil.
\<close>

record Context =
  ctx_err :: "error option"
  ctx_deadline :: "Time option"
  ctx_md :: "MD option"

definition ctx_Done :: "Context \<Rightarrow> bool" where
  "ctx_Done ctx = (ctx_err ctx \<noteq> None)"

text \<open>
  Modelled from the spec: \<^verbatim>\<open>context.WithCancel\<close>, \<^verbatim>\<open>context.WithDeadline\<close> and
  \<^verbatim>\<open>context.WithTimeout\<close> of the Go standard library, which are not under src/.
  The derived context inherits the parent's cancellation, deadline and values. With a
  deadline \<open>d\<close>: a parent deadline that is sooner wins (the child is then only a
  cancellable copy); otherwise the child's deadline is \<open>d\<close>, and it is expired at
  once when \<open>d\<close> is not after \<open>now\<close>. The returned cancel function only releases
  the timer of the derived context; the client defers it to its own return, where
  nothing reads the context any more, so it is not represented.
\<close>

definition context_WithCancel :: "Context \<Rightarrow> Context" where
  "context_WithCancel parent = parent"

definition context_WithDeadline :: "Time \<Rightarrow> Context \<Rightarrow> Time \<Rightarrow> Context" where
  "context_WithDeadline now parent d =
     (if (case ctx_deadline parent of Some cur \<Rightarrow> cur < d | None \<Rightarrow> False)
      then context_WithCancel parent
      else parent\<lparr>ctx_deadline := Some d,
                  ctx_err := (case ctx_err parent of
                                Some e \<Rightarrow> Some e
                              | None \<Rightarrow> if d - now \<le> 0 then Some context_DeadlineExceeded
                                        else None)\<rparr>)"

definition context_WithTimeout :: "Time \<Rightarrow> Context \<Rightarrow> Duration \<Rightarrow> Context" where
  "context_WithTimeout now parent timeout = context_WithDeadline now parent (now + timeout)"

text \<open>\<^verbatim>\<open>metadata.NewOutgoingContext\<close>: a copy of the context carrying \<open>md\<close>.\<close>

definition metadata_NewOutgoingContext :: "Context \<Rightarrow> MD option \<Rightarrow> Context" where
  "metadata_NewOutgoingContext ctx md = ctx\<lparr>ctx_md := md\<rparr>"

subsection \<open>The outside world: connections, the remote endpoint, the trace\<close>

text \<open>
  A \<^verbatim>\<open>*grpc.ClientConn\<close> is known by its identity. The batch handed to
  \<^verbatim>\<open>UploadMetrics\<close> (\<^verbatim>\<open>*metricpb.ResourceMetrics\<close>) is opaque to the client
  and known by an identifier as well.
\<close>

type_synonym ClientConn = nat
type_synonym ResourceMetrics = nat

datatype ExportMetricsServiceRequest =
  ExportMetricsServiceRequest (ResourceMetrics: "ResourceMetrics list")

text \<open>
  Everything the client does to the outside is recorded, in order: dialling an
  endpoint, closing a connection, one export call on a connection (with the context and
  the request it was given), and a wait of the retry strategy.
\<close>

datatype event =
    EvDial string
  | EvClose ClientConn
  | EvExport ClientConn Context ExportMetricsServiceRequest
  | EvWait Context Duration

type_synonym trace = "event list"

text \<open>
  How the outside answers, as functions of what has happened so far: the outcome of
  \<^verbatim>\<open>grpc.DialContext\<close>, of \<^verbatim>\<open>ClientConn.Close\<close> and of the remote
  \<^verbatim>\<open>Export\<close> call.
\<close>

record env =
  dial :: "trace \<Rightarrow> Context \<Rightarrow> string \<Rightarrow> string list \<Rightarrow> error + ClientConn"
  closeConn :: "trace \<Rightarrow> ClientConn \<Rightarrow> error option"
  export :: "trace \<Rightarrow> ClientConn \<Rightarrow> Context \<Rightarrow> ExportMetricsServiceRequest \<Rightarrow> error option"

text \<open>A call either returns or panics (a nil pointer, a nil function value).\<close>

datatype 'a outcome = Returned 'a | Panicked

definition grpc_DialContext ::
  "env \<Rightarrow> Context \<Rightarrow> string \<Rightarrow> string list \<Rightarrow> trace \<Rightarrow> (error + ClientConn) \<times> trace" where
  "grpc_DialContext e ctx target opts tr = (dial e tr ctx target opts, tr @ [EvDial target])"

definition ClientConn_Close :: "env \<Rightarrow> ClientConn \<Rightarrow> trace \<Rightarrow> error option \<times> trace" where
  "ClientConn_Close e k tr = (closeConn e tr k, tr @ [EvClose k])"

text \<open>\<^verbatim>\<open>msc.Export\<close> on the stub made by \<^verbatim>\<open>NewMetricsServiceClient(k)\<close>.\<close>

definition msc_Export ::
  "env \<Rightarrow> ClientConn \<Rightarrow> Context \<Rightarrow> ExportMetricsServiceRequest \<Rightarrow> trace \<Rightarrow> error option \<times> trace" where
  "msc_Export e k ctx req tr = (export e tr k ctx req, tr @ [EvExport k ctx req])"

subsection \<open>The client\<close>

text \<open>
  \<^verbatim>\<open>retry.RequestFunc\<close>: a strategy that is given a context and a fallible operation
  and runs the operation as often as it sees fit.
\<close>

type_synonym attempt = "Context \<Rightarrow> trace \<Rightarrow> error option outcome \<times> trace"
type_synonym RequestFunc = "Context \<Rightarrow> attempt \<Rightarrow> trace \<Rightarrow> error option outcome \<times> trace"
type_synonym EvaluateFunc = "error option \<Rightarrow> bool \<times> Duration"

text \<open>
  Instrument kinds and temporalities are small enumerations (\<^verbatim>\<open>uint8\<close>); an
  \<^verbatim>\<open>aggregation.Aggregation\<close> is an interface value, known by an identifier.
\<close>

type_synonym InstrumentKind = "8 word"
type_synonym Temporality = "8 word"
type_synonym Aggregation = nat

text \<open>
  The struct \<^verbatim>\<open>client\<close>. Nil-able fields are options; \<open>msc\<close> holds the
  connection its stub was made for.
\<close>

record client =
  metadata :: "MD option"
  exportTimeout :: Duration
  requestFunc :: "RequestFunc option"
  temporalitySelector :: "InstrumentKind \<Rightarrow> Temporality"
  aggregationSelector :: "InstrumentKind \<Rightarrow> Aggregation"
  ourConn :: bool
  conn :: "ClientConn option"
  msc :: "ClientConn option"

text \<open>
  The configuration \<^verbatim>\<open>oconf.NewGRPCConfig\<close> computes from the options; the fields
  \<^verbatim>\<open>newClient\<close> reads. \<open>RetryConfig_RequestFunc\<close> is the method
  \<^verbatim>\<open>cfg.RetryConfig.RequestFunc\<close>, from an evaluate function to a strategy.
\<close>

record Config =
  Metrics_Endpoint :: string
  Metrics_Headers :: "(string \<times> string) list"
  Metrics_Timeout :: Duration
  Metrics_TemporalitySelector :: "InstrumentKind \<Rightarrow> Temporality"
  Metrics_AggregationSelector :: "InstrumentKind \<Rightarrow> Aggregation"
  RetryConfig_RequestFunc :: "EvaluateFunc \<Rightarrow> RequestFunc"
  DialOptions :: "string list"
  GRPCConn :: "ClientConn option"

definition NewMetricsServiceClient :: "ClientConn option \<Rightarrow> ClientConn option" where
  "NewMetricsServiceClient cc = cc"

text \<open>\<^verbatim>\<open>newClient\<close>, from the computed configuration: the error of a failed dial
  or the new client.\<close>

definition newClient :: "env \<Rightarrow> Context \<Rightarrow> Config \<Rightarrow> trace \<Rightarrow> (error + client) \<times> trace" where
  "newClient e ctx cfg tr =
     (let c0 = \<lparr>metadata = None,
                exportTimeout = Metrics_Timeout cfg,
                requestFunc = Some (RetryConfig_RequestFunc cfg retryable),
                temporalitySelector = Metrics_TemporalitySelector cfg,
                aggregationSelector = Metrics_AggregationSelector cfg,
                ourConn = False,
                conn = GRPCConn cfg,
                msc = None\<rparr>;
          c1 = (if length (Metrics_Headers cfg) > 0
                then c0\<lparr>metadata := Some (metadata_New (Metrics_Headers cfg))\<rparr>
                else c0)
      in if conn c1 = None then
           (case grpc_DialContext e ctx (Metrics_Endpoint cfg) (DialOptions cfg) tr of
              (Inl err, tr') \<Rightarrow> (Inl err, tr')
            | (Inr k, tr') \<Rightarrow>
                (Inr (c1\<lparr>ourConn := True, conn := Some k,
                         msc := NewMetricsServiceClient (Some k)\<rparr>), tr'))
         else (Inr (c1\<lparr>msc := NewMetricsServiceClient (conn c1)\<rparr>), tr))"

definition Temporality :: "client \<Rightarrow> InstrumentKind \<Rightarrow> Temporality" where
  "Temporality c k = temporalitySelector c k"

definition Aggregation :: "client \<Rightarrow> InstrumentKind \<Rightarrow> Aggregation" where
  "Aggregation c k = aggregationSelector c k"

text \<open>\<^verbatim>\<open>ForceFlush\<close>: returns \<^verbatim>\<open>ctx.Err()\<close>; the client and the trace are
  handed back as they came.\<close>

definition ForceFlush :: "Context \<Rightarrow> client \<times> trace \<Rightarrow> error option outcome \<times> client \<times> trace" where
  "ForceFlush ctx s = (case s of (c, tr) \<Rightarrow> (Returned (ctx_err ctx), c, tr))"

text \<open>
  \<^verbatim>\<open>Shutdown\<close>. Closing through a nil \<^verbatim>\<open>*grpc.ClientConn\<close> panics, with the
  three fields already cleared and \<open>conn\<close> not yet.
\<close>

definition Shutdown :: "env \<Rightarrow> Context \<Rightarrow> client \<times> trace \<Rightarrow> error option outcome \<times> client \<times> trace" where
  "Shutdown e ctx s =
     (case s of (c, tr) \<Rightarrow>
        let c1 = c\<lparr>metadata := None, requestFunc := None, msc := None\<rparr>;
            err = ctx_err ctx
        in if ourConn c1 then
             (case conn c1 of
                None \<Rightarrow> (Panicked, c1, tr)
              | Some k \<Rightarrow>
                  (case ClientConn_Close e k tr of
                     (closeErr, tr') \<Rightarrow>
                       (Returned (if err = None \<and> closeErr \<noteq> None then closeErr else err),
                        c1\<lparr>conn := None\<rparr>, tr')))
           else (Returned err, c1\<lparr>conn := None\<rparr>, tr))"

text \<open>\<^verbatim>\<open>exportContext\<close>; \<open>now\<close> is the clock reading of
  \<^verbatim>\<open>context.WithTimeout\<close>.\<close>

definition exportContext :: "client \<Rightarrow> Time \<Rightarrow> Context \<Rightarrow> Context" where
  "exportContext c now parent =
     (let ctx = (if exportTimeout c > 0 then context_WithTimeout now parent (exportTimeout c)
                 else context_WithCancel parent)
      in if MD_Len (metadata c) > 0 then metadata_NewOutgoingContext ctx (metadata c)
         else ctx)"

text \<open>
  The closure \<^verbatim>\<open>UploadMetrics\<close> hands to the strategy: one export call under the
  context the strategy passes in; a result whose status code is OK becomes nil. A nil
  stub panics.
\<close>

definition exportAttempt :: "env \<Rightarrow> client \<Rightarrow> ResourceMetrics \<Rightarrow> attempt" where
  "exportAttempt e c protoMetrics iCtx tr =
     (case msc c of
        None \<Rightarrow> (Panicked, tr)
      | Some k \<Rightarrow>
          (case msc_Export e k iCtx (ExportMetricsServiceRequest [protoMetrics]) tr of
             (err, tr') \<Rightarrow>
               if status_Code err = OK then (Returned None, tr') else (Returned err, tr')))"

text \<open>\<^verbatim>\<open>UploadMetrics\<close>. Calling a nil \<open>requestFunc\<close> panics.\<close>

definition UploadMetrics ::
  "env \<Rightarrow> Time \<Rightarrow> client \<Rightarrow> Context \<Rightarrow> ResourceMetrics \<Rightarrow> trace \<Rightarrow> error option outcome \<times> trace" where
  "UploadMetrics e now c ctx protoMetrics tr =
     (if ctx_Done ctx then (Returned (ctx_err ctx), tr)
      else
        let ctx' = exportContext c now ctx in
        case requestFunc c of
          None \<Rightarrow> (Panicked, tr)
        | Some rf \<Rightarrow> rf ctx' (exportAttempt e c protoMetrics) tr)"

subsection \<open>A retry strategy\<close>

text \<open>
  Modelled from the spec: the request-retry loop of the package
  \<^verbatim>\<open>exporters/otlp/internal/retry\<close>, which is not under src/. Given a fallible
  operation, it invokes it; on the signal "retryable, wait D" of the evaluate function
  it waits and invokes it again under the context it was given; otherwise it hands the
  error back. It retries up to its own limit, here a number of retries, and when the
  limit is reached the last error is the result.
\<close>

fun retry_loop :: "nat \<Rightarrow> EvaluateFunc \<Rightarrow> RequestFunc" where
  "retry_loop 0 evaluate ctx fn tr = fn ctx tr"
| "retry_loop (Suc n) evaluate ctx fn tr =
     (case fn ctx tr of
        (Panicked, tr') \<Rightarrow> (Panicked, tr')
      | (Returned None, tr') \<Rightarrow> (Returned None, tr')
      | (Returned (Some err), tr') \<Rightarrow>
          (case evaluate (Some err) of
             (True, throttle) \<Rightarrow> retry_loop n evaluate ctx fn (tr' @ [EvWait ctx throttle])
           | (False, throttle) \<Rightarrow> (Returned (Some err), tr')))"

subsection \<open>Reading a trace\<close>

text \<open>The contexts of the export calls in a trace, in order.\<close>

fun export_scopes :: "trace \<Rightarrow> Context list" where
  "export_scopes [] = []"
| "export_scopes (EvExport k ctx req # evs) = ctx # export_scopes evs"
| "export_scopes (ev # evs) = export_scopes evs"

text \<open>\<open>Shutdown\<close> called once for each context of a list, one call after the other,
  whatever the calls before it did.\<close>

fun Shutdown_each :: "env \<Rightarrow> Context list \<Rightarrow> client \<times> trace \<Rightarrow> client \<times> trace" where
  "Shutdown_each e [] s = s"
| "Shutdown_each e (ctx # ctxs) s = Shutdown_each e ctxs (snd (Shutdown e ctx s))"

subsection \<open>Sample values\<close>

text \<open>A context that is neither cancelled nor expired and has no deadline, and one that
  has been cancelled.\<close>

definition background :: Context where
  "background = \<lparr>ctx_err = None, ctx_deadline = None, ctx_md = None\<rparr>"

definition cancelled :: Context where
  "cancelled = \<lparr>ctx_err = Some context_Canceled, ctx_deadline = None, ctx_md = None\<rparr>"

text \<open>An endpoint that answers the first two export calls with "unavailable" and every
  later one with success; dialling gives connection 7, closing succeeds.\<close>

definition unavailable_error :: error where
  "unavailable_error =
     GRPCStatusError \<lparr>code = Unavailable, message = ''unavailable'', details = []\<rparr>"

definition flaky_env :: env where
  "flaky_env =
     \<lparr>dial = (\<lambda>tr ctx target opts. Inr 7),
      closeConn = (\<lambda>tr k. None),
      export = (\<lambda>tr k ctx req.
                  if length (export_scopes tr) < 2 then Some unavailable_error else None)\<rparr>"

text \<open>An endpoint whose export call hands back a non-nil error that carries the status
  code OK, and whose connections fail to close.\<close>

definition ok_error :: error where
  "ok_error = GRPCStatusError \<lparr>code = OK, message = ''done'', details = []\<rparr>"

definition close_error :: error where
  "close_error = PlainError ''grpc: the client connection is closing''"

definition odd_env :: env where
  "odd_env =
     \<lparr>dial = (\<lambda>tr ctx target opts. Inr 7),
      closeConn = (\<lambda>tr k. Some close_error),
      export = (\<lambda>tr k ctx req. Some ok_error)\<rparr>"

text \<open>A configuration with a timeout of two seconds and no connection supplied, the same
  with connection 3 supplied, and the clients \<open>newClient\<close> makes of them.\<close>

definition dial_cfg :: Config where
  "dial_cfg =
     \<lparr>Metrics_Endpoint = ''localhost:4317'',
      Metrics_Headers = [],
      Metrics_Timeout = 2000000000,
      Metrics_TemporalitySelector = (\<lambda>k. 1),
      Metrics_AggregationSelector = (\<lambda>k. 0),
      RetryConfig_RequestFunc = retry_loop 5,
      DialOptions = [],
      GRPCConn = None\<rparr>"

definition supplied_cfg :: Config where
  "supplied_cfg = dial_cfg\<lparr>GRPCConn := Some 3\<rparr>"

definition owning_client :: client where
  "owning_client =
     \<lparr>metadata = None,
      exportTimeout = 2000000000,
      requestFunc = Some (retry_loop 5 retryable),
      temporalitySelector = (\<lambda>k. 1),
      aggregationSelector = (\<lambda>k. 0),
      ourConn = True,
      conn = Some 7,
      msc = Some 7\<rparr>"

definition borrowing_client :: client where
  "borrowing_client = owning_client\<lparr>ourConn := False, conn := Some 3, msc := Some 3\<rparr>"


definition mixed_details :: "error option" where
  "mixed_details =
     Some (GRPCStatusError
       \<lparr>code = ResourceExhausted, message = ''quota'',
        details = [OtherDetail ''DebugInfo'', RetryInfo (Some \<lparr>Seconds = 3, Nanos = 0\<rparr>),
                   OtherDetail ''QuotaFailure'',
                   RetryInfo (Some \<lparr>Seconds = 9, Nanos = 0\<rparr>)]\<rparr>)"

text \<open>The scope derived at time 100 from \<open>background\<close> with a timeout of two
  seconds, and the request made for batch 42.\<close>

definition two_second_scope :: Context where
  "two_second_scope = \<lparr>ctx_err = None, ctx_deadline = Some 2000000100, ctx_md = None\<rparr>"

definition request_42 :: ExportMetricsServiceRequest where
  "request_42 = ExportMetricsServiceRequest [42]"

section \<open>Properties\<close>

lemmas Code_defs =
  OK_def Canceled_def Unknown_def InvalidArgument_def DeadlineExceeded_def NotFound_def
  AlreadyExists_def PermissionDenied_def ResourceExhausted_def FailedPrecondition_def
  Aborted_def OutOfRange_def Unimplemented_def Internal_def Unavailable_def DataLoss_def
  Unauthenticated_def

subsection \<open>The conversion of a protobuf duration\<close>

lemma wrap_int64_fits: "fits_int64 x \<Longrightarrow> wrap_int64 x = x"
  by (simp add: wrap_int64_def fits_int64_def MinInt64_def MaxInt64_def)

lemma wrap_int64_cong: "\<exists>k. wrap_int64 x = x + k * 18446744073709551616"
proof -
  have "wrap_int64 x =
          x + (- ((x + 9223372036854775808) div 18446744073709551616)) * 18446744073709551616"
    unfolding wrap_int64_def
    using div_mult_mod_eq [of "x + 9223372036854775808" 18446744073709551616]
    by linarith
  then show ?thesis by blast
qed

lemma wrap_int64_range: "fits_int64 (wrap_int64 x)"
proof -
  have "0 \<le> (x + 9223372036854775808) mod 18446744073709551616"
    and "(x + 9223372036854775808) mod 18446744073709551616 < 18446744073709551616"
    by simp_all
  then show ?thesis
    unfolding wrap_int64_def fits_int64_def MinInt64_def MaxInt64_def by linarith
qed

lemma wrap_int64_high:
  assumes "MaxInt64 < x" and "x < 9223372036854775808 + 9223372036854775808"
  shows "wrap_int64 x = x - 18446744073709551616"
proof -
  have "(x + 9223372036854775808) mod 18446744073709551616 =
        (x + 9223372036854775808 - 18446744073709551616) mod 18446744073709551616"
    by (simp only: minus_mod_self2)
  also have "\<dots> = x + 9223372036854775808 - 18446744073709551616"
    using assms by (intro mod_pos_pos_trivial) (simp_all add: MaxInt64_def)
  finally show ?thesis by (simp add: wrap_int64_def)
qed

lemma wrap_int64_low:
  assumes "x < MinInt64" and "- 9223372036854775808 - 9223372036854775808 \<le> x"
  shows "wrap_int64 x = x + 18446744073709551616"
proof -
  have "(x + 9223372036854775808) mod 18446744073709551616 =
        (x + 9223372036854775808 + 18446744073709551616) mod 18446744073709551616"
    by (simp only: mod_add_self2)
  also have "\<dots> = x + 9223372036854775808 + 18446744073709551616"
    using assms by (intro mod_pos_pos_trivial) (simp_all add: MinInt64_def)
  finally show ?thesis by (simp add: wrap_int64_def)
qed

lemma sdiv_mult_self: "(a * 1000000000) sdiv 1000000000 = (a :: int)"
  by (simp add: signed_divide_int_def abs_mult sgn_mult mult_sgn_abs)

lemma sdiv_bounds:
  assumes "(d::int) sdiv 1000000000 = s"
  shows "\<bar>d - s * 1000000000\<bar> < 1000000000"
proof -
  have "d - s * 1000000000 = d smod 1000000000"
    using assms minus_sdiv_mult_eq_smod [of d 1000000000] by simp
  moreover have "d smod 1000000000 \<in> {- \<bar>1000000000\<bar> + 1..\<bar>1000000000\<bar> - 1}"
    by (rule smod_int_range) simp
  ultimately show ?thesis by auto
qed

text \<open>The check \<^verbatim>\<open>d/time.Second != secs\<close> finds every multiplication that left
  the range.\<close>

lemma overflow0_detects:
  assumes "\<not> fits_int64 (s * 1000000000)"
  shows "wrap_int64 (s * 1000000000) sdiv 1000000000 \<noteq> s"
proof
  assume e: "wrap_int64 (s * 1000000000) sdiv 1000000000 = s"
  obtain k where k: "wrap_int64 (s * 1000000000) = s * 1000000000 + k * 18446744073709551616"
    using wrap_int64_cong by blast
  from sdiv_bounds [OF e] k have b: "\<bar>k * 18446744073709551616\<bar> < 1000000000" by simp
  have "k = 0"
  proof (rule ccontr)
    assume "k \<noteq> 0"
    then have "1 \<le> \<bar>k\<bar>" by simp
    then have "18446744073709551616 \<le> \<bar>k\<bar> * 18446744073709551616" by simp
    with b show False by (simp add: abs_mult)
  qed
  with k have "wrap_int64 (s * 1000000000) = s * 1000000000" by simp
  with wrap_int64_range [of "s * 1000000000"] assms show False by simp
qed

text \<open>
  What the conversion computes: the exact number of nanoseconds when the seconds in
  nanoseconds and the sum with the nanoseconds are values of \<^verbatim>\<open>int64\<close>, and
  otherwise the bound of the range on the side of the sign of the seconds.
\<close>

lemma AsDuration_value:
  "AsDuration (Some x) =
     (if fits_int64 (sint (Seconds x) * 1000000000) \<and>
         fits_int64 (sint (Seconds x) * 1000000000 + sint (Nanos x))
      then sint (Seconds x) * 1000000000 + sint (Nanos x)
      else if sint (Seconds x) < 0 then MinInt64 else MaxInt64)"
proof -
  define s where "s = sint (Seconds x)"
  define n where "n = sint (Nanos x)"
  define p where "p = s * 1000000000"
  define d0 where "d0 = wrap_int64 p"
  define d where "d = wrap_int64 (d0 + n)"
  define ov where
    "ov \<longleftrightarrow> (d0 sdiv 1000000000 \<noteq> s \<or> s < 0 \<and> n < 0 \<and> d > 0) \<or> s > 0 \<and> n > 0 \<and> d < 0"
  have nb: "- 2147483648 \<le> n" "n < 2147483648"
    using sint_ge [of "Nanos x"] sint_lt [of "Nanos x"] by (simp_all add: n_def)
  have unfolded: "AsDuration (Some x) =
     (if ov \<and> s < 0 then MinInt64 else if ov \<and> s > 0 then MaxInt64 else d)"
    by (simp only: AsDuration_def Let_def s_def n_def p_def d0_def d_def ov_def
          GetSeconds.simps GetNanos.simps)
  have goal: "?thesis \<longleftrightarrow>
     AsDuration (Some x) =
       (if fits_int64 p \<and> fits_int64 (p + n) then p + n
        else if s < 0 then MinInt64 else MaxInt64)"
    by (simp only: s_def n_def p_def)
  have sat: "ov \<and> s \<noteq> 0 \<Longrightarrow> AsDuration (Some x) = (if s < 0 then MinInt64 else MaxInt64)"
    unfolding unfolded by auto
  show ?thesis
  proof (cases "fits_int64 p")
    case False
    then have "d0 sdiv 1000000000 \<noteq> s"
      unfolding p_def d0_def by (rule overflow0_detects)
    then have ov by (simp add: ov_def)
    moreover have "s \<noteq> 0"
      using False by (auto simp: p_def fits_int64_def MinInt64_def MaxInt64_def)
    ultimately have "AsDuration (Some x) = (if s < 0 then MinInt64 else MaxInt64)"
      by (intro sat) simp
    with False show ?thesis unfolding goal by simp
  next
    case True
    then have w0: "d0 = p" unfolding d0_def by (rule wrap_int64_fits)
    have q: "d0 sdiv 1000000000 = s" unfolding w0 p_def by (rule sdiv_mult_self)
    from True have pb: "MinInt64 \<le> p" "p \<le> MaxInt64" by (simp_all add: fits_int64_def)
    show ?thesis
    proof (cases "fits_int64 (p + n)")
      case fits: True
      then have dv: "d = p + n" unfolding d_def w0 by (rule wrap_int64_fits)
      have "s < 0 \<Longrightarrow> n < 0 \<Longrightarrow> \<not> d > 0"
        by (simp add: dv p_def)
      moreover have "s > 0 \<Longrightarrow> n > 0 \<Longrightarrow> \<not> d < 0"
        by (simp add: dv p_def)
      ultimately have "\<not> ov" using q by (auto simp: ov_def)
      then have "AsDuration (Some x) = p + n" unfolding unfolded by (simp add: dv)
      with True fits show ?thesis unfolding goal by simp
    next
      case nf: False
      show ?thesis
      proof (cases "MaxInt64 < p + n")
        case True
        with pb have npos: "0 < n" by simp
        have spos: "0 < s"
        proof (rule ccontr)
          assume "\<not> 0 < s"
          then have "p \<le> 0" by (simp add: p_def mult_le_0_iff)
          with True nb show False by (simp add: MaxInt64_def)
        qed
        have "wrap_int64 (p + n) = p + n - 18446744073709551616"
          using True pb nb by (intro wrap_int64_high) (simp_all add: MaxInt64_def)
        with pb nb have "d < 0" by (simp add: d_def w0 MaxInt64_def)
        with npos spos have ov by (simp add: ov_def)
        with spos have "AsDuration (Some x) = (if s < 0 then MinInt64 else MaxInt64)"
          by (intro sat) simp
        with nf show ?thesis unfolding goal by simp
      next
        case False
        with nf have low: "p + n < MinInt64" by (simp add: fits_int64_def)
        with pb have nneg: "n < 0" by simp
        have sneg: "s < 0"
        proof (rule ccontr)
          assume "\<not> s < 0"
          then have "0 \<le> p" by (simp add: p_def)
          with low nb show False by (simp add: MinInt64_def)
        qed
        have "wrap_int64 (p + n) = p + n + 18446744073709551616"
          using low pb nb by (intro wrap_int64_low) (simp_all add: MinInt64_def)
        with pb nb have "0 < d" by (simp add: d_def w0 MinInt64_def)
        with nneg sneg have ov by (simp add: ov_def)
        with sneg have "AsDuration (Some x) = (if s < 0 then MinInt64 else MaxInt64)"
          by (intro sat) simp
        with nf show ?thesis unfolding goal by simp
      qed
    qed
  qed
qed


lemma AsDuration_nil: "AsDuration None = 0"
  by (simp add: AsDuration_def Let_def wrap_int64_def)

lemma AsDuration_fits: "fits_int64 (AsDuration t)"
proof (cases t)
  case None
  then show ?thesis
    by (simp add: AsDuration_nil fits_int64_def MinInt64_def MaxInt64_def)
next
  case (Some x)
  have "fits_int64 MinInt64" "fits_int64 MaxInt64"
    by (simp_all add: fits_int64_def MinInt64_def MaxInt64_def)
  then show ?thesis
    unfolding Some AsDuration_value by (simp only: split: if_split) blast
qed

text \<open>A duration of 9223372037 seconds is beyond the range and becomes the largest
  \<^verbatim>\<open>time.Duration\<close>; durations of a few seconds are converted exactly.\<close>

lemma AsDuration_beyond_range:
  "AsDuration (Some \<lparr>Seconds = 9223372037, Nanos = 0\<rparr>) = MaxInt64"
  by (simp add: AsDuration_value fits_int64_def MinInt64_def MaxInt64_def)

lemma AsDuration_seconds:
  "AsDuration (Some \<lparr>Seconds = 1, Nanos = 0\<rparr>) = 1000000000"
  "AsDuration (Some \<lparr>Seconds = 2, Nanos = 0\<rparr>) = 2000000000"
  "AsDuration (Some \<lparr>Seconds = 3, Nanos = 0\<rparr>) = 3000000000"
  by (simp_all add: AsDuration_value fits_int64_def MinInt64_def MaxInt64_def)

subsection \<open>The classifier\<close>



lemma throttleDelay_loop_filter:
  "filter isRetryInfo ds = RetryInfo t # rest \<Longrightarrow> throttleDelay_loop ds = AsDuration t"
  by (induction ds rule: throttleDelay_loop.induct) simp_all

lemma retryable_delay:
  "fst (retryable err) = True \<Longrightarrow>
   snd (retryable err) = throttleDelay_loop (Status_Details (status_Convert err))"
  by (auto simp: retryable_def Let_def throttleDelay_def split: if_splits)

text \<open>Every delay the classifier returns is a value of \<^verbatim>\<open>time.Duration\<close>.\<close>

lemma throttleDelay_loop_fits: "fits_int64 (throttleDelay_loop ds)"
  by (induction ds rule: throttleDelay_loop.induct)
     (simp_all add: AsDuration_fits, simp add: fits_int64_def MinInt64_def MaxInt64_def)

lemma retryable_fits: "fits_int64 (snd (retryable err))"
  by (simp add: retryable_def Let_def throttleDelay_def throttleDelay_loop_fits)
     (simp add: fits_int64_def MinInt64_def MaxInt64_def)

text \<open>
  C2. The classifier says "retryable" for an error exactly when the code of its status
  is one of canceled, deadline-exceeded, resource-exhausted, aborted, out-of-range,
  unavailable and data-loss; for every other code it returns "not retryable" with a
  throttle delay of 0.
\<close>

theorem retryable_code_partition:
  "(Status_Code (status_Convert err) \<in>
      {Canceled, DeadlineExceeded, ResourceExhausted, Aborted, OutOfRange, Unavailable,
       DataLoss}
     \<longrightarrow> fst (retryable err) = True) \<and>
   (Status_Code (status_Convert err) \<notin>
      {Canceled, DeadlineExceeded, ResourceExhausted, Aborted, OutOfRange, Unavailable,
       DataLoss}
     \<longrightarrow> retryable err = (False, 0))"
  by (simp add: retryable_def Let_def)

theorem retryable_code_partition_witness:
  "Status_Code (status_Convert (Some unavailable_error)) = Unavailable \<and>
   fst (retryable (Some unavailable_error)) = True \<and>
   Status_Code (status_Convert (Some (GRPCStatusError
      \<lparr>code = Internal, message = ''bug'', details = [RetryInfo (Some \<lparr>Seconds = 5, Nanos = 0\<rparr>)]\<rparr>))) = Internal \<and>
   retryable (Some (GRPCStatusError
      \<lparr>code = Internal, message = ''bug'', details = [RetryInfo (Some \<lparr>Seconds = 5, Nanos = 0\<rparr>)]\<rparr>)) = (False, 0) \<and>
   retryable (Some (PlainError ''EOF'')) = (False, 0)"
  using retryable_code_partition [of "Some unavailable_error"]
        retryable_code_partition [of "Some (GRPCStatusError
           \<lparr>code = Internal, message = ''bug'', details = [RetryInfo (Some \<lparr>Seconds = 5, Nanos = 0\<rparr>)]\<rparr>)"]
        retryable_code_partition [of "Some (PlainError ''EOF'')"]
  by (simp add: unavailable_error_def Code_defs)




text \<open>
  C9. When the details of a retryable error hold more than one retry-info detail, the
  delay returned is that of the first of them in list order: the details of other
  kinds are skipped, so only the list of the retry-info details counts, and of that
  list only its head.
\<close>

theorem throttleDelay_first_retry_info_wins:
  assumes "fst (retryable err) = True"
    and "filter isRetryInfo (Status_Details (status_Convert err)) = RetryInfo t # rest"
  shows "snd (retryable err) = AsDuration t"
  by (simp add: retryable_delay [OF assms(1)] throttleDelay_loop_filter [OF assms(2)])

theorem throttleDelay_first_retry_info_wins_witness:
  "fst (retryable mixed_details) = True \<and>
   filter isRetryInfo (Status_Details (status_Convert mixed_details)) =
     [RetryInfo (Some \<lparr>Seconds = 3, Nanos = 0\<rparr>),
      RetryInfo (Some \<lparr>Seconds = 9, Nanos = 0\<rparr>)] \<and>
   snd (retryable mixed_details) = 3000000000"
proof -
  have a: "fst (retryable mixed_details) = True"
    by (simp add: mixed_details_def retryable_def Let_def Code_defs)
  have b: "filter isRetryInfo (Status_Details (status_Convert mixed_details)) =
             RetryInfo (Some \<lparr>Seconds = 3, Nanos = 0\<rparr>) #
               [RetryInfo (Some \<lparr>Seconds = 9, Nanos = 0\<rparr>)]"
    by (simp add: mixed_details_def)
  show ?thesis
    using a b throttleDelay_first_retry_info_wins [OF a b]
    by (simp add: AsDuration_seconds)
qed

subsection \<open>Contexts and the export scope\<close>

text \<open>Headers whose keys differ only in case are merged under one key.\<close>

lemma metadata_New_merges:
  "metadata_New [(''Api-Key'', ''a''), (''user'', ''u''), (''api-key'', ''b'')] =
     [(''api-key'', [''a'', ''b'']), (''user'', [''u''])]"
  by code_simp

text \<open>
  C6. With a positive export timeout the deadline of the derived scope is
  \<open>now + exportTimeout\<close> when the parent has no deadline or none that is sooner, and
  the parent's deadline when that is sooner. With an export timeout of 0 the derived
  scope has the parent's deadline (none, if the parent has none) and the parent's
  cancellation state, and nothing more.
\<close>

theorem exportContext_deadline:
  "(exportTimeout c > 0 \<longrightarrow>
      ctx_deadline (exportContext c now parent) =
        (case ctx_deadline parent of
           None \<Rightarrow> Some (now + exportTimeout c)
         | Some p \<Rightarrow> if p < now + exportTimeout c then Some p
                     else Some (now + exportTimeout c))) \<and>
   (exportTimeout c = 0 \<longrightarrow>
      ctx_deadline (exportContext c now parent) = ctx_deadline parent \<and>
      ctx_err (exportContext c now parent) = ctx_err parent)"
  by (simp add: exportContext_def Let_def context_WithTimeout_def context_WithDeadline_def
        context_WithCancel_def metadata_NewOutgoingContext_def split: option.splits)

theorem exportContext_deadline_witness:
  "exportTimeout owning_client > 0 \<and>
   ctx_deadline (exportContext owning_client 100 background) = Some 2000000100 \<and>
   ctx_deadline (exportContext owning_client 100 (background\<lparr>ctx_deadline := Some 150\<rparr>)) =
     Some 150 \<and>
   exportTimeout (owning_client\<lparr>exportTimeout := 0\<rparr>) = 0 \<and>
   ctx_deadline (exportContext (owning_client\<lparr>exportTimeout := 0\<rparr>) 100 background) = None \<and>
   ctx_err (exportContext (owning_client\<lparr>exportTimeout := 0\<rparr>) 100 cancelled) =
     Some context_Canceled"
  using exportContext_deadline [of owning_client 100 background]
        exportContext_deadline [of owning_client 100 "background\<lparr>ctx_deadline := Some 150\<rparr>"]
        exportContext_deadline [of "owning_client\<lparr>exportTimeout := 0\<rparr>" 100 background]
        exportContext_deadline [of "owning_client\<lparr>exportTimeout := 0\<rparr>" 100 cancelled]
  by (simp add: owning_client_def background_def cancelled_def)

subsection \<open>ForceFlush\<close>

text \<open>
  C7. \<open>ForceFlush\<close> returns the error state of its scope and nothing else happens:
  the client and the trace of everything done to the outside are as before. The result
  is the scope's error when the scope is cancelled or expired, and nil when it is not.
\<close>

theorem ForceFlush_pure:
  "ForceFlush ctx (c, tr) = (Returned (ctx_err ctx), c, tr) \<and>
   (\<not> ctx_Done ctx \<longrightarrow> fst (ForceFlush ctx (c, tr)) = Returned None) \<and>
   (ctx_Done ctx \<longrightarrow> (\<exists>err. fst (ForceFlush ctx (c, tr)) = Returned (Some err)))"
  by (auto simp: ForceFlush_def ctx_Done_def)

theorem ForceFlush_pure_witness:
  "\<not> ctx_Done background \<and>
   ForceFlush background (owning_client, [EvDial ''localhost:4317'']) =
     (Returned None, owning_client, [EvDial ''localhost:4317'']) \<and>
   ctx_Done cancelled \<and>
   ForceFlush cancelled (owning_client, []) =
     (Returned (Some context_Canceled), owning_client, [])"
  using ForceFlush_pure [of background owning_client "[EvDial ''localhost:4317'']"]
        ForceFlush_pure [of cancelled owning_client "[]"]
  by (simp add: background_def cancelled_def ctx_Done_def)

subsection \<open>Shutdown\<close>

lemma Shutdown_live:
  "conn c = Some k \<Longrightarrow>
   snd (Shutdown e ctx (c, tr)) =
     (c\<lparr>metadata := None, requestFunc := None, msc := None, conn := None\<rparr>,
      tr @ (if ourConn c then [EvClose k] else []))"
  by (simp add: Shutdown_def Let_def ClientConn_Close_def)

lemma Shutdown_released:
  "conn c = None \<Longrightarrow>
   snd (snd (Shutdown e ctx (c, tr))) = tr \<and>
   conn (fst (snd (Shutdown e ctx (c, tr)))) = None"
  by (simp add: Shutdown_def Let_def)

lemma Shutdown_each_released:
  "conn c = None \<Longrightarrow> snd (Shutdown_each e ctxs (c, tr)) = tr"
proof (induction ctxs arbitrary: c)
  case Nil
  show ?case by simp
next
  case (Cons ctx ctxs)
  obtain c' tr' where s: "snd (Shutdown e ctx (c, tr)) = (c', tr')"
    by (cases "snd (Shutdown e ctx (c, tr))")
  with Shutdown_released [OF Cons.prems, of e ctx tr] have "tr' = tr" "conn c' = None"
    by simp_all
  with Cons.IH [of c'] s show ?case by simp
qed

lemma Shutdown_each_live:
  assumes "conn c = Some k"
  shows "snd (Shutdown_each e ctxs (c, tr)) =
           tr @ (if ourConn c \<and> ctxs \<noteq> [] then [EvClose k] else [])"
proof (cases ctxs)
  case Nil
  then show ?thesis by simp
next
  case (Cons ctx rest)
  then show ?thesis
    by (simp add: Shutdown_live [OF assms] Shutdown_each_released)
qed

lemma newClient_conn:
  assumes "newClient e ctx0 cfg tr0 = (Inr c, tr1)"
  shows "(ourConn c \<longleftrightarrow> GRPCConn cfg = None) \<and> conn c \<noteq> None \<and>
         (GRPCConn cfg \<noteq> None \<longrightarrow> conn c = GRPCConn cfg)"
  using assms
  by (auto simp: newClient_def Let_def NewMetricsServiceClient_def
           split: if_splits prod.splits sum.splits)

text \<open>
  C1. A client made by \<open>newClient\<close> owns its connection exactly when no connection
  was supplied in the configuration. Whatever has happened since, and however many
  times \<open>Shutdown\<close> is then called (once for each context of \<open>ctxs\<close>), all the
  calls together add to the trace one close of the client's connection when the client
  owns it and at least one call is made, and nothing at all otherwise: a supplied
  connection is never closed, a dialled one exactly once.
\<close>

theorem Shutdown_closes_iff_owned:
  assumes "newClient e ctx0 cfg tr0 = (Inr c, tr1)"
  shows "(ourConn c \<longleftrightarrow> GRPCConn cfg = None) \<and>
         (\<exists>k. conn c = Some k \<and>
              (GRPCConn cfg \<noteq> None \<longrightarrow> GRPCConn cfg = Some k) \<and>
              snd (Shutdown_each e ctxs (c, tr)) =
                tr @ (if ourConn c \<and> ctxs \<noteq> [] then [EvClose k] else []))"
proof -
  from newClient_conn [OF assms] obtain k where k: "conn c = Some k"
    and o: "ourConn c \<longleftrightarrow> GRPCConn cfg = None"
    and g: "GRPCConn cfg \<noteq> None \<longrightarrow> conn c = GRPCConn cfg"
    by auto
  from Shutdown_each_live [OF k] k o g show ?thesis by auto
qed

theorem Shutdown_closes_iff_owned_witness:
  "newClient flaky_env background dial_cfg [] = (Inr owning_client, [EvDial ''localhost:4317'']) \<and>
   snd (Shutdown_each flaky_env [background, cancelled, background]
          (owning_client, [EvDial ''localhost:4317''])) =
     [EvDial ''localhost:4317'', EvClose 7] \<and>
   newClient flaky_env background supplied_cfg [] = (Inr borrowing_client, []) \<and>
   snd (Shutdown_each flaky_env [background, cancelled, background] (borrowing_client, [])) = []"
proof -
  have a: "newClient flaky_env background dial_cfg [] =
             (Inr owning_client, [EvDial ''localhost:4317''])"
    by (simp add: newClient_def dial_cfg_def owning_client_def flaky_env_def Let_def
          grpc_DialContext_def NewMetricsServiceClient_def)
  have b: "newClient flaky_env background supplied_cfg [] = (Inr borrowing_client, [])"
    by (simp add: newClient_def supplied_cfg_def dial_cfg_def borrowing_client_def
          owning_client_def Let_def NewMetricsServiceClient_def)
  have "snd (Shutdown_each flaky_env [background, cancelled, background]
               (owning_client, [EvDial ''localhost:4317''])) =
          [EvDial ''localhost:4317'', EvClose 7]"
    using Shutdown_closes_iff_owned
            [OF a, of "[background, cancelled, background]" "[EvDial ''localhost:4317'']"]
    by (simp add: owning_client_def)
  moreover
  have "snd (Shutdown_each flaky_env [background, cancelled, background]
               (borrowing_client, [])) = []"
    using Shutdown_closes_iff_owned [OF b, of "[background, cancelled, background]" "[]"]
    by (simp add: borrowing_client_def owning_client_def supplied_cfg_def dial_cfg_def)
  ultimately show ?thesis using a b by simp
qed

text \<open>
  C5. For a client that still holds the connection it owns, \<open>Shutdown\<close> returns the
  scope's error whenever the scope is cancelled or expired, whether closing succeeds or
  fails; with a scope that is not expired it returns the error of closing an owned
  connection when that fails, and nil otherwise.
\<close>

theorem Shutdown_error_precedence:
  assumes "ourConn c \<longrightarrow> conn c \<noteq> None"
  shows "fst (Shutdown e ctx (c, tr)) =
           Returned (if ctx_err ctx \<noteq> None then ctx_err ctx
                     else if ourConn c then closeConn e tr (the (conn c))
                     else None)"
  using assms by (auto simp: Shutdown_def Let_def ClientConn_Close_def split: option.splits)

theorem Shutdown_error_precedence_witness:
  "ourConn owning_client \<and> conn owning_client = Some 7 \<and>
   fst (Shutdown odd_env cancelled (owning_client, [])) = Returned (Some context_Canceled) \<and>
   fst (Shutdown flaky_env cancelled (owning_client, [])) = Returned (Some context_Canceled) \<and>
   fst (Shutdown odd_env background (owning_client, [])) = Returned (Some close_error) \<and>
   fst (Shutdown flaky_env background (owning_client, [])) = Returned None \<and>
   fst (Shutdown odd_env background (borrowing_client, [])) = Returned None"
proof -
  have a: "ourConn owning_client \<longrightarrow> conn owning_client \<noteq> None"
    by (simp add: owning_client_def)
  have b: "ourConn borrowing_client \<longrightarrow> conn borrowing_client \<noteq> None"
    by (simp add: borrowing_client_def owning_client_def)
  have c: "ourConn owning_client \<and> conn owning_client = Some 7"
    by (simp add: owning_client_def)
  show ?thesis
    using c Shutdown_error_precedence [OF a, of odd_env cancelled "[]"]
      Shutdown_error_precedence [OF a, of flaky_env cancelled "[]"]
      Shutdown_error_precedence [OF a, of odd_env background "[]"]
      Shutdown_error_precedence [OF a, of flaky_env background "[]"]
      Shutdown_error_precedence [OF b, of odd_env background "[]"]
    by (simp add: owning_client_def borrowing_client_def cancelled_def background_def
          odd_env_def flaky_env_def)
qed

subsection \<open>UploadMetrics\<close>

lemma export_scopes_append:
  "export_scopes (xs @ ys) = export_scopes xs @ export_scopes ys"
  by (induction xs rule: export_scopes.induct) simp_all

lemma exportAttempt_trace:
  "\<exists>new. snd (exportAttempt e c pm s tr) = tr @ new \<and> set (export_scopes new) \<subseteq> {s}"
  by (cases "msc c") (auto simp: exportAttempt_def msc_Export_def)

lemma retry_loop_scopes:
  "\<exists>new. snd (retry_loop n ev s (exportAttempt e c pm) tr) = tr @ new \<and>
         set (export_scopes new) \<subseteq> {s}"
proof (induction n arbitrary: tr)
  case 0
  show ?case using exportAttempt_trace [of e c pm s tr] by simp
next
  case (Suc n)
  obtain r tr' where a: "exportAttempt e c pm s tr = (r, tr')"
    by (cases "exportAttempt e c pm s tr")
  obtain new where n1: "tr' = tr @ new" "set (export_scopes new) \<subseteq> {s}"
    using exportAttempt_trace [of e c pm s tr] a by auto
  show ?case
  proof (cases r)
    case Panicked
    with a n1 show ?thesis by auto
  next
    case (Returned err)
    show ?thesis
    proof (cases err)
      case None
      with a n1 Returned show ?thesis by auto
    next
      case (Some x)
      obtain b d where ev: "ev (Some x) = (b, d)" by (cases "ev (Some x)")
      show ?thesis
      proof (cases b)
        case False
        with a n1 Returned Some ev show ?thesis by auto
      next
        case True
        obtain new2 where n2:
          "snd (retry_loop n ev s (exportAttempt e c pm) (tr' @ [EvWait s d])) =
             (tr' @ [EvWait s d]) @ new2"
          "set (export_scopes new2) \<subseteq> {s}"
          using Suc.IH [of "tr' @ [EvWait s d]"] by blast
        have "snd (retry_loop (Suc n) ev s (exportAttempt e c pm) tr) =
                tr @ (new @ EvWait s d # new2)"
          using a Returned Some ev True n1 n2 by simp
        moreover have "set (export_scopes (new @ EvWait s d # new2)) \<subseteq> {s}"
          using n1 n2 by (simp add: export_scopes_append)
        ultimately show ?thesis by blast
      qed
    qed
  qed
qed

lemma exportContext_two_seconds:
  "exportContext owning_client 100 background = two_second_scope"
  by (simp add: exportContext_def owning_client_def background_def two_second_scope_def
        context_WithTimeout_def context_WithDeadline_def Let_def)

lemma retry_loop_5: "retry_loop 5 = retry_loop (Suc (Suc (Suc (Suc (Suc 0)))))"
  by (simp add: numeral_eq_Suc)

lemma retry_loop_flaky:
  "retry_loop 5 retryable two_second_scope (exportAttempt flaky_env owning_client 42) [] =
     (Returned None,
      [EvExport 7 two_second_scope request_42, EvWait two_second_scope 0,
       EvExport 7 two_second_scope request_42, EvWait two_second_scope 0,
       EvExport 7 two_second_scope request_42])"
  by (simp add: retry_loop_5 exportAttempt_def owning_client_def flaky_env_def msc_Export_def
        unavailable_error_def status_Code_def retryable_def Let_def throttleDelay_def
        request_42_def Code_defs)

text \<open>
  C4. When the scope handed to \<open>UploadMetrics\<close> is already cancelled or expired, the
  call returns that scope's error and the trace is as it was: no export call is made
  and the retry strategy, whatever it is, is not invoked.
\<close>

theorem UploadMetrics_preflight:
  assumes "ctx_Done ctx"
  shows "\<exists>err. ctx_err ctx = Some err \<and>
               UploadMetrics e now c ctx pm tr = (Returned (Some err), tr)"
  using assms by (auto simp: UploadMetrics_def ctx_Done_def)

theorem UploadMetrics_preflight_witness:
  "ctx_Done cancelled \<and>
   UploadMetrics flaky_env 100 owning_client cancelled 42 [] =
     (Returned (Some context_Canceled), [])"
proof -
  have a: "ctx_Done cancelled"
    by (simp add: ctx_Done_def cancelled_def)
  have b: "ctx_err cancelled = Some context_Canceled"
    by (simp add: cancelled_def)
  show ?thesis
    using a b UploadMetrics_preflight [OF a, of flaky_env 100 owning_client 42 "[]"]
    by auto
qed

text \<open>
  C8. Within one call of \<open>UploadMetrics\<close> on a live scope, the export scope is
  derived once and the strategy is invoked once, with that scope and with an operation
  that depends on neither the parent scope nor the clock. Under the retry loop every
  export call the upload makes, first attempt and retries alike, runs under that one
  derived scope.
\<close>

theorem UploadMetrics_single_scope:
  assumes "\<not> ctx_Done ctx"
  shows "(requestFunc c = Some rf \<longrightarrow>
            UploadMetrics e now c ctx pm tr =
              rf (exportContext c now ctx) (exportAttempt e c pm) tr) \<and>
         (requestFunc c = Some (retry_loop n ev) \<longrightarrow>
            (\<exists>new. snd (UploadMetrics e now c ctx pm tr) = tr @ new \<and>
                   set (export_scopes new) \<subseteq> {exportContext c now ctx}))"
  using assms retry_loop_scopes [of n ev "exportContext c now ctx" e c pm tr]
  by (simp add: UploadMetrics_def Let_def)

text \<open>The end-to-end run of the spec: a timeout of two seconds, an endpoint that is
  unavailable twice and then succeeds: no error after three attempts, each under the
  same scope.\<close>

theorem UploadMetrics_single_scope_witness:
  "\<not> ctx_Done background \<and>
   UploadMetrics flaky_env 100 owning_client background 42 [] =
     (Returned None,
      [EvExport 7 two_second_scope request_42, EvWait two_second_scope 0,
       EvExport 7 two_second_scope request_42, EvWait two_second_scope 0,
       EvExport 7 two_second_scope request_42]) \<and>
   export_scopes (snd (UploadMetrics flaky_env 100 owning_client background 42 [])) =
     [two_second_scope, two_second_scope, two_second_scope]"
proof -
  have a: "\<not> ctx_Done background"
    by (simp add: ctx_Done_def background_def)
  have b: "requestFunc owning_client = Some (retry_loop 5 retryable)"
    by (simp add: owning_client_def)
  have "UploadMetrics flaky_env 100 owning_client background 42 [] =
          retry_loop 5 retryable (exportContext owning_client 100 background)
            (exportAttempt flaky_env owning_client 42) []"
    using UploadMetrics_single_scope
            [OF a, of owning_client "retry_loop 5 retryable" flaky_env 100 42 "[]"] b
    by simp
  then have "UploadMetrics flaky_env 100 owning_client background 42 [] =
     (Returned None,
      [EvExport 7 two_second_scope request_42, EvWait two_second_scope 0,
       EvExport 7 two_second_scope request_42, EvWait two_second_scope 0,
       EvExport 7 two_second_scope request_42])"
    by (simp only: exportContext_two_seconds retry_loop_flaky)
  with a show ?thesis by simp
qed

text \<open>
  C10. The operation run for each attempt makes one export call and turns a result
  whose status code is OK into nil, also when that result is a non-nil error; a result
  with any other status code is handed back as it is, for the strategy to judge.
\<close>

theorem exportAttempt_ok_is_success:
  assumes "msc c = Some k"
  shows "exportAttempt e c pm iCtx tr =
           (if status_Code (export e tr k iCtx (ExportMetricsServiceRequest [pm])) = OK
            then Returned None
            else Returned (export e tr k iCtx (ExportMetricsServiceRequest [pm])),
            tr @ [EvExport k iCtx (ExportMetricsServiceRequest [pm])])"
  using assms by (simp add: exportAttempt_def msc_Export_def)

theorem exportAttempt_ok_is_success_witness:
  "msc owning_client = Some 7 \<and>
   export odd_env [] 7 two_second_scope request_42 = Some ok_error \<and>
   exportAttempt odd_env owning_client 42 two_second_scope [] =
     (Returned None, [EvExport 7 two_second_scope request_42]) \<and>
   exportAttempt flaky_env owning_client 42 two_second_scope [] =
     (Returned (Some unavailable_error), [EvExport 7 two_second_scope request_42])"
proof -
  have a: "msc owning_client = Some 7"
    by (simp add: owning_client_def)
  show ?thesis
    using a exportAttempt_ok_is_success [OF a, of odd_env 42 two_second_scope "[]"]
      exportAttempt_ok_is_success [OF a, of flaky_env 42 two_second_scope "[]"]
    by (simp add: odd_env_def flaky_env_def ok_error_def unavailable_error_def
          status_Code_def request_42_def Code_defs)
qed

end
